theory Spec2Isabelle
  imports Complex_Main
begin

section \<open>Strings\<close>

text \<open>
  A Python \<open>str\<close> is modelled as a \<open>string\<close>; each \<open>char\<close> stands for one code point, so
  \<open>length\<close> is Python's \<open>len\<close>, \<open>take n s\<close> is \<open>s[:n]\<close> and \<open>drop n s\<close> is \<open>s[n:]\<close>.
\<close>

definition startswith :: "string \<Rightarrow> string \<Rightarrow> bool" where
  "startswith s p = (take (length p) s = p)"

definition endswith :: "string \<Rightarrow> string \<Rightarrow> bool" where
  "endswith s p = (length p \<le> length s \<and> drop (length s - length p) s = p)"

text \<open>\<open>path.split('/', 1)\<close>: \<open>None\<close> when there is no slash (Python returns a one-element
  list), otherwise the text before and the text after the first slash.\<close>

fun split_once :: "string \<Rightarrow> (string \<times> string) option" where
  "split_once [] = None"
| "split_once (c # cs) =
     (if c = CHR ''/'' then Some ([], cs)
      else (case split_once cs of None \<Rightarrow> None | Some (a, b) \<Rightarrow> Some (c # a, b)))"

text \<open>\<open>str.strip()\<close>: the characters for which \<open>str.isspace\<close> holds, up to code point 255.\<close>

definition is_space :: "char \<Rightarrow> bool" where
  "is_space c = ((of_char c :: nat) \<in> {9, 10, 11, 12, 13, 28, 29, 30, 31, 32, 133, 160})"

definition strip :: "string \<Rightarrow> string" where
  "strip s = rev (dropWhile is_space (rev (dropWhile is_space s)))"

fun join :: "string \<Rightarrow> string list \<Rightarrow> string" where
  "join sep [] = []"
| "join sep [x] = x"
| "join sep (x # y # ys) = x @ sep @ join sep (y # ys)"

section \<open>Errors\<close>

text \<open>
  The code raises \<open>ValueError\<close> itself and lets the exceptions of its collaborators pass.
  An error is named after the place it leaves: out of the loader, the splitter, the index
  construction, the chain construction, or the retrieval and completion of a query. The
  string is the text of the exception (\<open>str(e)\<close>).
\<close>

datatype error =
    LoadError string
  | SplitError string
  | EmptyBatchError
  | IndexBuildError string
  | ChainError string
  | NotReadyError
  | QueryError string

definition str_of :: "error \<Rightarrow> string" where
  "str_of e = (case e of
       LoadError m \<Rightarrow> m
     | SplitError m \<Rightarrow> m
     | EmptyBatchError \<Rightarrow> ''No valid text loaded from sources to create vector store.''
     | IndexBuildError m \<Rightarrow> m
     | ChainError m \<Rightarrow> m
     | NotReadyError \<Rightarrow> ''Vector store or QA chain not initialized. Create the vector store first.''
     | QueryError m \<Rightarrow> m)"

section \<open>Documents, index, collaborators\<close>

datatype mval = MStr string | MInt int

record doc =
  page_content :: string
  metadata :: "(string \<times> mval) list"

text \<open>The FAISS store holds one entry per text, with its metadata, in the order given.\<close>

type_synonym index = "doc list"

datatype chain = StuffChain

text \<open>
  The collaborators the code calls and the configuration it reads. A collaborator that can
  raise returns the text of its exception in \<open>Inl\<close>.
  \<^item> \<open>valid_url\<close>: \<open>validators.url(source)\<close> is truthy;
  \<^item> \<open>path_exists\<close>: \<open>os.path.exists\<close>;
  \<^item> \<open>aws_credentials\<close>: both access keys are set in the environment;
  \<^item> \<open>boto3_client\<close>, \<open>head_bucket\<close>: making the client, then probing the bucket;
  \<^item> \<open>s3_download bucket key\<close>: \<open>download_file\<close> into the temporary file;
  \<^item> \<open>tmp_name\<close>: the name \<open>NamedTemporaryFile\<close> gives its file;
  \<^item> \<open>http_get\<close>: \<open>requests.get\<close> and \<open>raise_for_status\<close>, giving \<open>response.text\<close>;
  \<^item> \<open>soup_text\<close>: BeautifulSoup parsing, removal of script and style elements, \<open>get_text\<close>;
  \<^item> \<open>pdf_pages\<close>: \<open>PdfReader(path).pages\<close>, each page through \<open>extract_text\<close> (the
    empty string stands for a page that yields no text);
  \<^item> \<open>read_file\<close>: \<open>open(path, 'r', encoding='utf-8').read()\<close>;
  \<^item> \<open>split_text\<close>: \<open>RecursiveCharacterTextSplitter.split_text\<close> at the configured sizes;
  \<^item> \<open>embed\<close>: the embedding and index construction inside \<open>FAISS.from_texts\<close>;
  \<^item> \<open>make_llm\<close>: \<open>OpenAI(...)\<close> and \<open>load_qa_chain\<close>;
  \<^item> \<open>similarity_search\<close>, \<open>run_chain\<close>: retrieval, and the completion with the token
    count and cost its callback reports;
  \<^item> \<open>top_k\<close>: \<open>CONFIG['rag']['top_k']\<close>;
  \<^item> \<open>query_time\<close>, \<open>wrapper_time\<close>: the two differences of \<open>time.time()\<close> readings.
\<close>

record env =
  valid_url :: "string \<Rightarrow> bool"
  path_exists :: "string \<Rightarrow> bool"
  aws_credentials :: bool
  boto3_client :: "string + unit"
  head_bucket :: "string + unit"
  s3_download :: "string \<Rightarrow> string \<Rightarrow> string + unit"
  tmp_name :: string
  http_get :: "string \<Rightarrow> string + string"
  soup_text :: "string \<Rightarrow> string"
  pdf_pages :: "string \<Rightarrow> string + string list"
  read_file :: "string \<Rightarrow> string + string"
  split_text :: "string \<Rightarrow> string + string list"
  embed :: "string list \<Rightarrow> string + unit"
  make_llm :: "string \<Rightarrow> string + unit"
  similarity_search :: "index \<Rightarrow> string \<Rightarrow> nat \<Rightarrow> string + doc list"
  run_chain :: "doc list \<Rightarrow> string \<Rightarrow> string + (string \<times> nat \<times> real)"
  top_k :: nat
  query_time :: real
  wrapper_time :: real

section \<open>InformationLoader\<close>

text \<open>\<open>s3_client\<close> tells whether \<open>self.s3_client\<close> holds a client (it is \<open>None\<close> otherwise).\<close>

record loader =
  use_s3 :: bool
  s3_client :: bool

text \<open>\<open>_init_s3_client\<close>: without credentials the backend is switched off before any client
  is made; when making the client or the probe raises, the backend is switched off as well
  (after a failed probe the client stays assigned).\<close>

definition init_s3_client :: "env \<Rightarrow> loader \<Rightarrow> loader" where
  "init_s3_client E L =
     (if \<not> aws_credentials E then L\<lparr>use_s3 := False\<rparr>
      else (case boto3_client E of
              Inl _ \<Rightarrow> L\<lparr>use_s3 := False\<rparr>
            | Inr _ \<Rightarrow>
                (case head_bucket E of
                   Inr _ \<Rightarrow> L\<lparr>s3_client := True\<rparr>
                 | Inl _ \<Rightarrow> L\<lparr>s3_client := True, use_s3 := False\<rparr>)))"

text \<open>\<open>InformationLoader.__init__(use_s3)\<close>.\<close>

definition InformationLoader :: "env \<Rightarrow> bool \<Rightarrow> loader" where
  "InformationLoader E u =
     (let L = \<lparr>use_s3 = u, s3_client = False\<rparr>
      in if u then init_s3_client E L else L)"

definition truncation_marker :: string where
  "truncation_marker = ''... [truncated]''"

definition load_from_web :: "env \<Rightarrow> string \<Rightarrow> error + string" where
  "load_from_web E url =
     (case http_get E url of
        Inl m \<Rightarrow> Inl (LoadError m)
      | Inr body \<Rightarrow>
          (let text = soup_text E body
           in if length text > 10000 then Inr (take 10000 text @ truncation_marker)
              else Inr text))"

definition load_from_pdf :: "env \<Rightarrow> string \<Rightarrow> error + string" where
  "load_from_pdf E file_path =
     (case pdf_pages E file_path of
        Inl m \<Rightarrow> Inl (LoadError m)
      | Inr pages \<Rightarrow> Inr (join [CHR 0x0A, CHR 0x0A] (map strip (filter (\<lambda>t. t \<noteq> []) pages))))"

definition load_from_local_file :: "env \<Rightarrow> string \<Rightarrow> error + string" where
  "load_from_local_file E file_path =
     (case read_file E file_path of
        Inl m \<Rightarrow> Inl (LoadError m)
      | Inr content \<Rightarrow> Inr content)"

text \<open>
  \<open>_load_from_s3\<close>. The set is the temporary files present on disk. The file is made with
  \<open>delete=False\<close> before the download starts; \<open>os.unlink\<close> stands after the extraction, outside
  any \<open>finally\<close>, so it runs only when the extraction has returned.
\<close>

definition load_from_s3 :: "env \<Rightarrow> loader \<Rightarrow> string \<Rightarrow> string set \<Rightarrow> (error + string) \<times> string set" where
  "load_from_s3 E L s3_uri fs =
     (if \<not> use_s3 L \<or> \<not> s3_client L
      then (Inl (LoadError ''S3 client is not initialized or S3 is unavailable.''), fs)
      else (case split_once (drop 5 s3_uri) of
              None \<Rightarrow>
                (Inl (LoadError (''Invalid S3 URI format. '' @ s3_uri
                        @ '' should be in the format s3://bucket/key'')), fs)
            | Some (bucket, key) \<Rightarrow>
                (let tmp_path = tmp_name E; fs1 = insert tmp_path fs
                 in (case s3_download E bucket key of
                       Inl m \<Rightarrow> (Inl (LoadError m), fs1)
                     | Inr _ \<Rightarrow>
                         (case (if endswith key ''.pdf'' then load_from_pdf E tmp_path
                                else load_from_local_file E tmp_path) of
                            Inl e \<Rightarrow> (Inl e, fs1)
                          | Inr content \<Rightarrow> (Inr content, fs1 - {tmp_path}))))))"

text \<open>\<open>load_information\<close>: the first rule that matches decides; its \<open>except\<close> logs and raises
  the same exception again.\<close>

definition load_information :: "env \<Rightarrow> loader \<Rightarrow> string \<Rightarrow> string set \<Rightarrow> (error + string) \<times> string set" where
  "load_information E L source fs =
     (if startswith source ''s3://'' \<and> use_s3 L then load_from_s3 E L source fs
      else if valid_url E source then (load_from_web E source, fs)
      else if endswith source ''.pdf'' then (load_from_pdf E source, fs)
      else if path_exists E source then (load_from_local_file E source, fs)
      else (Inr source, fs))"

section \<open>Observability\<close>

text \<open>
  The Prometheus metrics of \<open>observability.py\<close>, one state for the process: two counters of
  queries, the observations of the latency histogram (newest last), the token counter and the
  index-size gauge (described there as the number of documents in the vector store).
\<close>

record metrics =
  QUERY_COUNT :: nat
  QUERY_LATENCY :: "real list"
  QUERY_ERRORS :: nat
  TOKENS_USED :: nat
  VECTOR_STORE_SIZE :: nat

section \<open>ProductionRAGPipeline\<close>

record pipeline =
  openai_api_key :: string
  information_loader :: loader
  vector_store :: "index option"
  qa_chain :: "chain option"

text \<open>\<open>ProductionRAGPipeline.__init__\<close>: a loader with the default \<open>use_s3=True\<close>, no store
  and no chain.\<close>

definition ProductionRAGPipeline :: "env \<Rightarrow> string \<Rightarrow> pipeline" where
  "ProductionRAGPipeline E key =
     \<lparr>openai_api_key = key,
      information_loader = InformationLoader E True,
      vector_store = None,
      qa_chain = None\<rparr>"

definition get_source_type :: "string \<Rightarrow> string" where
  "get_source_type source =
     (if startswith source ''s3://'' then ''s3''
      else if startswith source ''http://'' \<or> startswith source ''https://'' then ''web''
      else ''local'')"

text \<open>The inner loop over the chunks of one source: \<open>chunk_index\<close> is the length of
  \<open>all_texts\<close> after the append, minus one. The chunks are strings here, so the coercion
  \<open>str(chunk)\<close> of the source changes nothing.\<close>

fun append_chunks ::
  "string \<Rightarrow> string list \<Rightarrow> string list \<times> (string \<times> mval) list list
     \<Rightarrow> string list \<times> (string \<times> mval) list list" where
  "append_chunks source [] acc = acc"
| "append_chunks source (chunk # texts) (all_texts, all_metadatas) =
     append_chunks source texts
       (all_texts @ [chunk],
        all_metadatas @
          [[(''source'', MStr source),
            (''chunk_index'', MInt (int (length (all_texts @ [chunk])) - 1)),
            (''source_type'', MStr (get_source_type source))]])"

text \<open>The loop over the sources: whatever the loader or the splitter raises is logged and the
  loop continues with the next source.\<close>

fun process_sources ::
  "env \<Rightarrow> loader \<Rightarrow> string list \<Rightarrow> string list \<times> (string \<times> mval) list list \<Rightarrow> string set
     \<Rightarrow> (string list \<times> (string \<times> mval) list list) \<times> string set" where
  "process_sources E L [] acc fs = (acc, fs)"
| "process_sources E L (source # rest) acc fs =
     (case load_information E L source fs of
        (Inl e, fs') \<Rightarrow> process_sources E L rest acc fs'
      | (Inr content, fs') \<Rightarrow>
          (case split_text E content of
             Inl m \<Rightarrow> process_sources E L rest acc fs'
           | Inr texts \<Rightarrow> process_sources E L rest (append_chunks source texts acc) fs'))"

definition from_texts :: "env \<Rightarrow> string list \<Rightarrow> (string \<times> mval) list list \<Rightarrow> error + index" where
  "from_texts E texts metadatas =
     (case embed E texts of
        Inl m \<Rightarrow> Inl (IndexBuildError m)
      | Inr _ \<Rightarrow> Inr (map (\<lambda>(t, m). \<lparr>page_content = t, metadata = m\<rparr>) (zip texts metadatas)))"

text \<open>\<open>_create_qa_chain\<close> stores the chain in \<open>self.qa_chain\<close> and has no \<open>return\<close>
  statement: the value it returns is Python's \<open>None\<close>.\<close>

definition create_qa_chain :: "env \<Rightarrow> pipeline \<Rightarrow> (error + chain option) \<times> pipeline" where
  "create_qa_chain E P =
     (case make_llm E (openai_api_key P) of
        Inl m \<Rightarrow> (Inl (ChainError m), P)
      | Inr _ \<Rightarrow> (Inr None, P\<lparr>qa_chain := Some StuffChain\<rparr>))"

text \<open>\<open>create_vector_store\<close>: the gauge is set before \<open>FAISS.from_texts\<close> is called, and
  \<open>self.qa_chain\<close> is assigned what \<open>_create_qa_chain\<close> returns. The method returns nothing.\<close>

definition create_vector_store ::
  "env \<Rightarrow> string list \<Rightarrow> pipeline \<Rightarrow> metrics \<Rightarrow> string set
     \<Rightarrow> (error + unit) \<times> pipeline \<times> metrics \<times> string set" where
  "create_vector_store E sources_list P M fs =
     (case process_sources E (information_loader P) sources_list ([], []) fs of
        ((all_texts, all_metadatas), fs') \<Rightarrow>
          if all_texts = [] then (Inl EmptyBatchError, P, M, fs')
          else
            (let M' = M\<lparr>VECTOR_STORE_SIZE := length all_texts\<rparr>
             in (case from_texts E all_texts all_metadatas of
                   Inl e \<Rightarrow> (Inl e, P, M', fs')
                 | Inr store \<Rightarrow>
                     (case create_qa_chain E (P\<lparr>vector_store := Some store\<rparr>) of
                        (Inl e, P') \<Rightarrow> (Inl e, P', M', fs')
                      | (Inr ret, P') \<Rightarrow> (Inr (), P'\<lparr>qa_chain := ret\<rparr>, M', fs')))))"

record source_info =
  content_preview :: string
  source :: mval
  source_type :: mval

text \<open>\<open>d.get(key, default)\<close> on the metadata.\<close>

definition dict_get :: "(string \<times> mval) list \<Rightarrow> string \<Rightarrow> mval \<Rightarrow> mval" where
  "dict_get d k dflt = (case map_of d k of None \<Rightarrow> dflt | Some v \<Rightarrow> v)"

definition make_source_info :: "doc \<Rightarrow> source_info" where
  "make_source_info d =
     \<lparr>content_preview =
        (if length (page_content d) > 200 then take 200 (page_content d) @ ''...''
         else page_content d),
      source = dict_get (metadata d) ''source'' (MStr ''Unknown''),
      source_type = dict_get (metadata d) ''source_type'' (MStr ''Unknown'')\<rparr>"

text \<open>The response dictionary: the key \<open>sources\<close> is present exactly when \<open>sources\<close> is
  \<open>Some\<close>.\<close>

record response =
  answer :: string
  processing_time :: real
  tokens_used :: nat
  cost_estimate :: real
  sources :: "source_info list option"

text \<open>\<open>query\<close>: a store or a chain that is \<open>None\<close> is falsy (the objects themselves are
  truthy); the \<open>except\<close> logs and raises the same exception again.\<close>

definition query :: "env \<Rightarrow> pipeline \<Rightarrow> metrics \<Rightarrow> string \<Rightarrow> bool \<Rightarrow> (error + response) \<times> metrics" where
  "query E P M question return_sources =
     (case (vector_store P, qa_chain P) of
        (Some store, Some c) \<Rightarrow>
          (case similarity_search E store question (top_k E) of
             Inl m \<Rightarrow> (Inl (QueryError m), M)
           | Inr docs \<Rightarrow>
               (case run_chain E docs question of
                  Inl m \<Rightarrow> (Inl (QueryError m), M)
                | Inr (ans, total_tokens, total_cost) \<Rightarrow>
                    (Inr \<lparr>answer = ans,
                          processing_time = query_time E,
                          tokens_used = total_tokens,
                          cost_estimate = total_cost,
                          sources = (if return_sources then Some (map make_source_info docs)
                                     else None)\<rparr>,
                     M\<lparr>TOKENS_USED := TOKENS_USED M + total_tokens\<rparr>)))
      | _ \<Rightarrow> (Inl NotReadyError, M))"

section \<open>The application\<close>

text \<open>The globals of \<open>main.py\<close> and of the process: the pipeline (\<open>None\<close> before startup), the
  metrics, the temporary files on disk.\<close>

record app =
  rag_pipeline :: "pipeline option"
  app_metrics :: metrics
  tmp_files :: "string set"

datatype http_exception = HTTPException nat string

record query_request =
  question :: string
  return_sources :: bool



definition query_question :: "env \<Rightarrow> query_request \<Rightarrow> app \<Rightarrow> (http_exception + response) \<times> app" where
  "query_question E request A =
     (case rag_pipeline A of
        None \<Rightarrow> (Inl (HTTPException 503 ''RAG pipeline not initialized.''), A)
      | Some P \<Rightarrow>
          (case query E P (app_metrics A) (question request) (return_sources request) of
             (Inr result, M') \<Rightarrow> (Inr result, A\<lparr>app_metrics := M'\<rparr>)
           | (Inl e, M') \<Rightarrow> (Inl (HTTPException 500 (str_of e)), A\<lparr>app_metrics := M'\<rparr>)))"

text \<open>\<open>track_metrics\<close>: the wrapper around an endpoint. The endpoints raise \<open>HTTPException\<close>,
  which \<open>except Exception\<close> catches; the \<open>finally\<close> block observes the latency on both
  paths.\<close>

definition track_metrics ::
  "env \<Rightarrow> (app \<Rightarrow> (http_exception + 'a) \<times> app) \<Rightarrow> app \<Rightarrow> (http_exception + 'a) \<times> app" where
  "track_metrics E func A =
     (case func A of
        (Inr result, A') \<Rightarrow>
          (let M1 = (app_metrics A')\<lparr>QUERY_COUNT := QUERY_COUNT (app_metrics A') + 1\<rparr>;
               M2 = M1\<lparr>QUERY_LATENCY := QUERY_LATENCY M1 @ [wrapper_time E]\<rparr>
           in (Inr result, A'\<lparr>app_metrics := M2\<rparr>))
      | (Inl e, A') \<Rightarrow>
          (let M1 = (app_metrics A')\<lparr>QUERY_ERRORS := QUERY_ERRORS (app_metrics A') + 1\<rparr>;
               M2 = M1\<lparr>QUERY_LATENCY := QUERY_LATENCY M1 @ [wrapper_time E]\<rparr>
           in (Inl e, A'\<lparr>app_metrics := M2\<rparr>)))"

text \<open>The route \<open>/query\<close> is the wrapped function.\<close>

definition query_endpoint :: "env \<Rightarrow> query_request \<Rightarrow> app \<Rightarrow> (http_exception + response) \<times> app" where
  "query_endpoint E request A = track_metrics E (query_question E request) A"


section \<open>A concrete run\<close>

text \<open>
  An environment for the concrete runs below: no AWS credentials, no files on disk, every
  web fetch refused, a splitter that keeps a short text as one chunk, an embedding provider,
  a completion service and a retrieval that work (retrieval gives the first \<open>k\<close> entries).
\<close>

definition env0 :: env where
  "env0 =
     \<lparr>valid_url = (\<lambda>s. startswith s ''http://'' \<or> startswith s ''https://''),
      path_exists = (\<lambda>p. False),
      aws_credentials = False,
      boto3_client = Inr (),
      head_bucket = Inr (),
      s3_download = (\<lambda>bucket key. Inr ()),
      tmp_name = ''/tmp/tmpk3v9x2.tmp'',
      http_get = (\<lambda>url. Inl ''Connection refused''),
      soup_text = (\<lambda>body. body),
      pdf_pages = (\<lambda>p. Inl ''No such file or directory''),
      read_file = (\<lambda>p. Inl ''No such file or directory''),
      split_text = (\<lambda>t. Inr (if t = [] then [] else [t])),
      embed = (\<lambda>texts. Inr ()),
      make_llm = (\<lambda>key. Inr ()),
      similarity_search = (\<lambda>store q k. Inr (take k store)),
      run_chain = (\<lambda>docs q. Inr (''Cats are mammals.'', 42, 0)),
      top_k = 3,
      query_time = 0,
      wrapper_time = 0\<rparr>"

definition metrics0 :: metrics where
  "metrics0 =
     \<lparr>QUERY_COUNT = 0, QUERY_LATENCY = [], QUERY_ERRORS = 0, TOKENS_USED = 0,
      VECTOR_STORE_SIZE = 0\<rparr>"

definition pipeline0 :: pipeline where
  "pipeline0 = ProductionRAGPipeline env0 ''sk-test''"

text \<open>The same environment with the embedding provider down.\<close>

definition env_embed_down :: env where
  "env_embed_down = env0\<lparr>embed := (\<lambda>texts. Inl ''embedding service unavailable'')\<rparr>"



definition app0 :: app where
  "app0 = \<lparr>rag_pipeline = Some pipeline0, app_metrics = metrics0, tmp_files = {}\<rparr>"

text \<open>An environment with AWS credentials and a reachable bucket, where the PDF reader
  rejects what it is given.\<close>

definition env_s3 :: env where
  "env_s3 = env0\<lparr>aws_credentials := True, pdf_pages := (\<lambda>p. Inl ''EOF marker not found'')\<rparr>"

text \<open>A page of 10022 characters whose only text outside the script element is \<open>Hello\<close>, and an
  environment that serves it; \<open>soup_text\<close> gives what the parser extracts from that page.\<close>

definition script_page :: string where
  "script_page = ''<script>'' @ replicate 10000 (CHR ''x'') @ ''</script>Hello''"

definition env_script :: env where
  "env_script =
     env0\<lparr>http_get := (\<lambda>url. Inr script_page),
          soup_text := (\<lambda>body. if body = script_page then ''Hello'' else body)\<rparr>"

text \<open>An environment that serves a page of 10001 characters of plain text.\<close>

definition env_long_page :: env where
  "env_long_page = env0\<lparr>http_get := (\<lambda>url. Inr (replicate 10001 (CHR ''a'')))\<rparr>"

text \<open>An environment whose splitter gives three chunks, the second of 250 characters, and a
  pipeline that is ready to answer: the store is built by \<open>create_vector_store\<close>, then
  \<open>_create_qa_chain\<close> is called on the pipeline directly, as \<open>get_qa_chain_legacy\<close> does.\<close>

definition long_text :: string where
  "long_text = replicate 250 (CHR ''x'')"

definition env_chunks :: env where
  "env_chunks = env0\<lparr>split_text := (\<lambda>t. Inr [''alpha'', long_text, ''gamma''])\<rparr>"

definition ready_pipeline :: pipeline where
  "ready_pipeline =
     (case create_vector_store env_chunks [''raw text about cats''] pipeline0 metrics0 {} of
        (r, P, M, fs) \<Rightarrow> snd (create_qa_chain env_chunks P))"

definition ready_app :: app where
  "ready_app = \<lparr>rag_pipeline = Some ready_pipeline, app_metrics = metrics0, tmp_files = {}\<rparr>"

definition cats_query :: query_request where
  "cats_query = \<lparr>question = ''What are cats?'', return_sources = True\<rparr>"

definition cats_meta :: "nat \<Rightarrow> (string \<times> mval) list" where
  "cats_meta i =
     [(''source'', MStr ''raw text about cats''), (''chunk_index'', MInt (int i)),
      (''source_type'', MStr ''local'')]"

section \<open>Properties\<close>

lemmas env_defs = env0_def metrics0_def pipeline0_def ProductionRAGPipeline_def
  InformationLoader_def init_s3_client_def

lemmas load_defs = load_information_def load_from_s3_def load_from_web_def load_from_pdf_def
  load_from_local_file_def startswith_def endswith_def

lemmas build_defs = create_vector_store_def from_texts_def create_qa_chain_def
  get_source_type_def

subsection \<open>Readiness of the query\<close>

lemma query_not_ready:
  "vector_store P = None \<or> qa_chain P = None \<Longrightarrow> query E P M q rs = (Inl NotReadyError, M)"
  by (auto simp: query_def split: option.splits)

text \<open>A build that returns leaves a store and no chain: \<open>self.qa_chain\<close> is overwritten with
  the \<open>None\<close> that \<open>_create_qa_chain\<close> returns.\<close>

lemma create_vector_store_success:
  assumes "create_vector_store E srcs P M fs = (Inr u, P', M', fs')"
  shows "qa_chain P' = None \<and> vector_store P' \<noteq> None"
  using assms
  by (auto simp: create_vector_store_def create_qa_chain_def Let_def
      split: prod.splits if_splits sum.splits)

lemma query_after_build:
  assumes "create_vector_store E srcs P M fs = (Inr u, P', M', fs')"
  shows "query E P' M'' q rs = (Inl NotReadyError, M'')"
  using create_vector_store_success [OF assms] by (simp add: query_not_ready)

text \<open>
  Claim C1. A query fails with NotReadyError when no index has been built, and after a
  successful \<open>create_vector_store\<close> a query does not fail with NotReadyError. The second half
  fails on the code: the build of one raw-text source returns and installs a store, and the
  query that follows raises the not-ready error.
\<close>

theorem query_after_successful_build_not_ready:
  "(case create_vector_store env0 [''raw text about cats''] pipeline0 metrics0 {} of
      (r, P', M', fs') \<Rightarrow>
        r = Inr () \<and> vector_store P' \<noteq> None \<and>
        fst (query env0 P' M' ''What are cats?'' True) = Inl NotReadyError)"
  by (simp add: env_defs load_defs build_defs query_def)

subsection \<open>The loader's dispatch\<close>

text \<open>\<open>_load_from_s3\<close> itself refuses a disabled backend; the dispatch of \<open>load_information\<close>
  never calls it in that case.\<close>

lemma load_from_s3_disabled_raises:
  "\<not> use_s3 L \<Longrightarrow>
     load_from_s3 E L uri fs
       = (Inl (LoadError ''S3 client is not initialized or S3 is unavailable.''), fs)"
  by (simp add: load_from_s3_def)

text \<open>
  Claim C2. An \<open>s3://\<close> descriptor with the backend disabled makes \<open>load\<close> fail with LoadError;
  it never falls through to the raw-text fallback and never comes back as content. The code
  misses this: the descriptor \<open>s3://bucket/notes.txt\<close>, loaded by a loader whose backend was
  disabled at construction (no credentials), reaches the last branch and is returned as the
  content.
\<close>

theorem load_s3_disabled_returns_descriptor:
  "startswith ''s3://bucket/notes.txt'' ''s3://'' \<and>
   use_s3 (InformationLoader env0 True) = False \<and>
   load_information env0 (InformationLoader env0 True) ''s3://bucket/notes.txt'' {}
     = (Inr ''s3://bucket/notes.txt'', {})"
  by (simp add: env_defs load_defs)

subsection \<open>Failed builds\<close>

text \<open>
  Claim C3. When \<open>create_vector_store\<close> fails because no chunk was accumulated
  (EmptyBatchError) or because the embedding or index construction raised (IndexBuildError),
  the pipeline's vector store is the one it had before the call; the whole pipeline object
  is unchanged.
\<close>

theorem failed_build_keeps_index:
  assumes "create_vector_store E srcs P M fs = (Inl e, P', M', fs')"
    and "e = EmptyBatchError \<or> (\<exists>m. e = IndexBuildError m)"
  shows "vector_store P' = vector_store P \<and> P' = P"
  using assms
  by (auto simp: create_vector_store_def create_qa_chain_def from_texts_def Let_def
      split: prod.splits if_splits sum.splits)

theorem failed_build_keeps_index_witness:
  "(case create_vector_store env0 [''alpha'', ''beta'', ''gamma''] pipeline0 metrics0 {} of
      (r1, P1, M1, fs1) \<Rightarrow>
        r1 = Inr () \<and> map_option length (vector_store P1) = Some 3 \<and>
        (case create_vector_store env0 [] P1 M1 fs1 of
           (r2, P2, M2, fs2) \<Rightarrow> r2 = Inl EmptyBatchError \<and> vector_store P2 = vector_store P1) \<and>
        (case create_vector_store env_embed_down [''delta''] P1 M1 fs1 of
           (r3, P3, M3, fs3) \<Rightarrow>
             r3 = Inl (IndexBuildError ''embedding service unavailable'') \<and>
             vector_store P3 = vector_store P1))"
proof -
  obtain r1 P1 M1 fs1 where
    b1: "create_vector_store env0 [''alpha'', ''beta'', ''gamma''] pipeline0 metrics0 {}
           = (r1, P1, M1, fs1)"
    by (metis prod_cases4)
  obtain r2 P2 M2 fs2 where
    b2: "create_vector_store env0 [] P1 M1 fs1 = (r2, P2, M2, fs2)"
    by (metis prod_cases4)
  obtain r3 P3 M3 fs3 where
    b3: "create_vector_store env_embed_down [''delta''] P1 M1 fs1 = (r3, P3, M3, fs3)"
    by (metis prod_cases4)
  have e1: "r1 = Inr () \<and> map_option length (vector_store P1) = Some 3
            \<and> information_loader P1 = \<lparr>use_s3 = False, s3_client = False\<rparr>"
    using b1 by (auto simp: env_defs load_defs build_defs)
  have e2: "r2 = Inl EmptyBatchError"
    using b2 by (auto simp: create_vector_store_def)
  have e3: "r3 = Inl (IndexBuildError ''embedding service unavailable'')"
    using b3 e1 by (auto simp: env_embed_down_def env0_def load_defs build_defs)
  have k2: "vector_store P2 = vector_store P1"
    using failed_build_keeps_index [of env0 "[]" P1 M1 fs1 EmptyBatchError P2 M2 fs2] b2 e2
    by simp
  have k3: "vector_store P3 = vector_store P1"
    using failed_build_keeps_index [of env_embed_down "[''delta'']" P1 M1 fs1
        "IndexBuildError ''embedding service unavailable''" P3 M3 fs3] b3 e3
    by simp
  show ?thesis using b1 b2 b3 e1 e2 e3 k2 k3 by simp
qed

text \<open>A failure of the chain construction is a third way to fail; it comes after the new
  store is installed.\<close>

lemma chain_failure_after_install:
  assumes "create_vector_store E srcs P M fs = (Inl (ChainError m), P', M', fs')"
  shows "vector_store P' \<noteq> None \<and> qa_chain P' = qa_chain P"
  using assms
  by (auto simp: create_vector_store_def create_qa_chain_def from_texts_def Let_def
      split: prod.splits if_splits sum.splits)

subsection \<open>What ingestion reports\<close>




subsection \<open>The index-size gauge\<close>

text \<open>
  Claim C5. The gauge is updated to the new chunk count only when the ingestion succeeds, and
  is left unchanged by a failing one. On the code the gauge is set before the index is
  constructed: after a build of three chunks, a build of one chunk whose embedding fails
  leaves the store of three chunks in place and the gauge at one.
\<close>

theorem gauge_set_before_failed_build:
  "(case create_vector_store env0 [''alpha'', ''beta'', ''gamma''] pipeline0 metrics0 {} of
      (r1, P1, M1, fs1) \<Rightarrow>
        r1 = Inr () \<and> VECTOR_STORE_SIZE M1 = 3 \<and>
        (case create_vector_store env_embed_down [''delta''] P1 M1 fs1 of
           (r2, P2, M2, fs2) \<Rightarrow>
             r2 = Inl (IndexBuildError ''embedding service unavailable'') \<and>
             map_option length (vector_store P2) = Some 3 \<and>
             VECTOR_STORE_SIZE M2 = 1))"
  by (simp add: env_defs env_embed_down_def load_defs build_defs)

subsection \<open>Temporary copies\<close>

lemma load_from_s3_success_unlinks:
  "load_from_s3 E L uri fs = (Inr content, fs') \<Longrightarrow> tmp_name E \<notin> fs'"
  by (auto simp: load_from_s3_def Let_def split: if_splits option.splits sum.splits prod.splits)

text \<open>
  Claim C6. The temporary copy of an object-storage load is deleted on every exit path of the
  extraction. On the code it is deleted when the extraction returns (lemma above); when the
  PDF extraction raises, the copy stays on disk.
\<close>

theorem s3_temp_file_left_after_failed_extraction:
  "use_s3 (InformationLoader env_s3 True) \<and> s3_client (InformationLoader env_s3 True) \<and>
   load_information env_s3 (InformationLoader env_s3 True) ''s3://bucket/report.pdf'' {}
     = (Inl (LoadError ''EOF marker not found''), {''/tmp/tmpk3v9x2.tmp''})"
  by (simp add: env_defs env_s3_def load_defs)

subsection \<open>Truncation of web text\<close>

text \<open>
  Claim C7, as stated: a web fetch whose body exceeds 10,000 characters comes back truncated
  with the marker. On the code the limit applies to the extracted text: the page above has a
  body of more than 10,000 characters and the text \<open>Hello\<close>, which \<open>load\<close> returns as it is.
\<close>

theorem web_body_over_limit_counterexample:
  "valid_url env_script ''https://example.com/page'' \<and>
   http_get env_script ''https://example.com/page'' = Inr script_page \<and>
   length script_page > 10000 \<and>
   load_information env_script (InformationLoader env_script True) ''https://example.com/page'' {}
     = (Inr ''Hello'', {})"
  by (simp add: env_script_def env_defs load_defs script_page_def)

text \<open>
  Claim C7, amended: for every web fetch whose extracted text exceeds 10,000 characters, the
  text returned by \<open>load\<close> is the first 10,000 characters of the extracted text followed by the
  truncation marker; extracted text of length at most 10,000 is returned without the marker,
  whatever the length of the body.
\<close>

theorem web_text_truncation:
  assumes "\<not> (startswith url ''s3://'' \<and> use_s3 L)" and "valid_url E url"
    and "http_get E url = Inr body"
  shows "load_information E L url fs =
           (Inr (if length (soup_text E body) > 10000
                 then take 10000 (soup_text E body) @ ''... [truncated]''
                 else soup_text E body), fs)"
  using assms by (auto simp: load_information_def load_from_web_def truncation_marker_def)

theorem web_text_truncation_witness:
  "\<not> (startswith ''https://example.com/page'' ''s3://'' \<and> use_s3 (InformationLoader env0 True)) \<and>
   valid_url env_long_page ''https://example.com/page'' \<and>
   http_get env_long_page ''https://example.com/page'' = Inr (replicate 10001 (CHR ''a'')) \<and>
   load_information env_long_page (InformationLoader env0 True) ''https://example.com/page'' {}
     = (Inr (replicate 10000 (CHR ''a'') @ ''... [truncated]''), {})"
proof -
  have a: "\<not> (startswith ''https://example.com/page'' ''s3://'' \<and> use_s3 (InformationLoader env0 True))"
    by (simp add: startswith_def)
  have b: "valid_url env_long_page ''https://example.com/page''"
    by (simp add: env_long_page_def env0_def startswith_def)
  have c: "http_get env_long_page ''https://example.com/page'' = Inr (replicate 10001 (CHR ''a''))"
    by (simp add: env_long_page_def env0_def)
  have s: "soup_text env_long_page = (\<lambda>body. body)"
    by (simp add: env_long_page_def env0_def)
  show ?thesis
    using a b c web_text_truncation [OF a b c, of "{}"] by (simp add: s)
qed

subsection \<open>Source attribution\<close>

text \<open>
  Claim C8. A query that succeeds carries a \<open>sources\<close> sequence exactly when attribution was
  requested; it then has one entry per retrieved chunk, in retrieval order, and each preview
  is the chunk text when that has at most 200 characters, and otherwise its first 200
  characters followed by \<open>...\<close> (so at most 203 characters).
\<close>

theorem query_sources:
  assumes "query E P M q rs = (Inr r, M')"
  shows "\<exists>store docs.
           vector_store P = Some store \<and>
           similarity_search E store q (top_k E) = Inr docs \<and>
           (sources r \<noteq> None \<longleftrightarrow> rs) \<and>
           (rs \<longrightarrow>
             (\<exists>srcs. sources r = Some srcs \<and> length srcs = length docs \<and>
               (\<forall>i < length docs.
                  content_preview (srcs ! i) =
                    (if length (page_content (docs ! i)) \<le> 200 then page_content (docs ! i)
                     else take 200 (page_content (docs ! i)) @ ''...'') \<and>
                  length (content_preview (srcs ! i)) \<le> 203)))"
proof -
  from assms obtain store c where s: "vector_store P = Some store" "qa_chain P = Some c"
    by (auto simp: query_def split: option.splits)
  from assms s obtain docs where d: "similarity_search E store q (top_k E) = Inr docs"
    by (auto simp: query_def split: sum.splits)
  from assms s d have r: "sources r = (if rs then Some (map make_source_info docs) else None)"
    by (auto simp: query_def split: sum.splits prod.splits)
  have p: "\<forall>i < length docs.
             content_preview (map make_source_info docs ! i) =
               (if length (page_content (docs ! i)) \<le> 200 then page_content (docs ! i)
                else take 200 (page_content (docs ! i)) @ ''...'') \<and>
             length (content_preview (map make_source_info docs ! i)) \<le> 203"
    by (simp add: make_source_info_def)
  show ?thesis using s d r p by auto
qed

lemma ready_pipeline_eq:
  "ready_pipeline =
     \<lparr>openai_api_key = ''sk-test'',
      information_loader = \<lparr>use_s3 = False, s3_client = False\<rparr>,
      vector_store = Some
        [\<lparr>page_content = ''alpha'', metadata = cats_meta 0\<rparr>,
         \<lparr>page_content = long_text, metadata = cats_meta 1\<rparr>,
         \<lparr>page_content = ''gamma'', metadata = cats_meta 2\<rparr>],
      qa_chain = Some StuffChain\<rparr>"
  by (simp add: ready_pipeline_def env_chunks_def env_defs load_defs build_defs cats_meta_def)

theorem query_sources_witness:
  "(case query env_chunks ready_pipeline metrics0 ''What are cats?'' True of
      (r, M') \<Rightarrow>
        map_sum id (\<lambda>resp. map_option (map content_preview) (sources resp)) r
          = Inr (Some [''alpha'', replicate 200 (CHR ''x'') @ ''...'', ''gamma'']))"
proof -
  obtain r M' where run: "query env_chunks ready_pipeline metrics0 ''What are cats?'' True = (r, M')"
    by (metis surj_pair)
  have "\<exists>resp. r = Inr resp"
    using run by (auto simp: query_def ready_pipeline_eq env_chunks_def env0_def)
  then obtain resp where r: "r = Inr resp" ..
  from query_sources [of env_chunks ready_pipeline metrics0 "''What are cats?''" True resp M']
  obtain store docs srcs where
    v: "vector_store ready_pipeline = Some store"
    and d: "similarity_search env_chunks store ''What are cats?'' (top_k env_chunks) = Inr docs"
    and s: "sources resp = Some srcs" "length srcs = length docs"
    and p: "\<forall>i < length docs.
              content_preview (srcs ! i) =
                (if length (page_content (docs ! i)) \<le> 200 then page_content (docs ! i)
                 else take 200 (page_content (docs ! i)) @ ''...'')"
    using run r by auto
  have docs: "docs = [\<lparr>page_content = ''alpha'', metadata = cats_meta 0\<rparr>,
                      \<lparr>page_content = long_text, metadata = cats_meta 1\<rparr>,
                      \<lparr>page_content = ''gamma'', metadata = cats_meta 2\<rparr>]"
    using d v by (auto simp: ready_pipeline_eq env_chunks_def env0_def)
  have l: "length srcs = 3" using s docs by simp
  have "map content_preview srcs = [''alpha'', replicate 200 (CHR ''x'') @ ''...'', ''gamma'']"
  proof (rule nth_equalityI)
    show "length (map content_preview srcs)
            = length [''alpha'', replicate 200 (CHR ''x'') @ ''...'', ''gamma'']"
      using l by simp
  next
    fix i assume "i < length (map content_preview srcs)"
    then have "i = 0 \<or> i = 1 \<or> i = 2" using l by auto
    then show "map content_preview srcs ! i
                 = [''alpha'', replicate 200 (CHR ''x'') @ ''...'', ''gamma''] ! i"
      using p l docs by (auto simp: long_text_def)
  qed
  then show ?thesis using run r s by simp
qed

subsection \<open>Raw text\<close>

text \<open>
  Claim C9. A string that is not an enabled object-storage URI, not a valid URL, not a path
  with the PDF suffix and not an existing path is returned unchanged by \<open>load\<close>, which does
  not fail on it (and leaves the temporary files as they are).
\<close>

theorem load_raw_text_identity:
  assumes "\<not> (startswith s ''s3://'' \<and> use_s3 L)" and "\<not> valid_url E s"
    and "\<not> endswith s ''.pdf''" and "\<not> path_exists E s"
  shows "load_information E L s fs = (Inr s, fs)"
  using assms by (auto simp: load_information_def)

theorem load_raw_text_identity_witness:
  "\<not> (startswith ''raw text about cats'' ''s3://'' \<and> use_s3 (InformationLoader env0 True)) \<and>
   \<not> valid_url env0 ''raw text about cats'' \<and>
   \<not> endswith ''raw text about cats'' ''.pdf'' \<and>
   \<not> path_exists env0 ''raw text about cats'' \<and>
   load_information env0 (InformationLoader env0 True) ''raw text about cats'' {}
     = (Inr ''raw text about cats'', {})"
proof -
  have a: "\<not> (startswith ''raw text about cats'' ''s3://'' \<and> use_s3 (InformationLoader env0 True))"
    by (simp add: startswith_def)
  have b: "\<not> valid_url env0 ''raw text about cats''"
    by (simp add: env0_def startswith_def)
  have c: "\<not> endswith ''raw text about cats'' ''.pdf''"
    by (simp add: endswith_def)
  have d: "\<not> path_exists env0 ''raw text about cats''"
    by (simp add: env0_def)
  show ?thesis
    using a b c d load_raw_text_identity [OF a b c d, of "{}"] by simp
qed

subsection \<open>Metrics of the query endpoint\<close>

text \<open>\<open>query\<close> touches the token counter only.\<close>

lemma query_keeps_query_metrics:
  assumes "query E P M q rs = (r, M')"
  shows "QUERY_COUNT M' = QUERY_COUNT M \<and> QUERY_ERRORS M' = QUERY_ERRORS M \<and>
         QUERY_LATENCY M' = QUERY_LATENCY M"
  using assms
  by (auto simp: query_def split: option.splits sum.splits prod.splits)

lemma query_question_keeps_query_metrics:
  assumes "query_question E request A = (r, A')"
  shows "QUERY_COUNT (app_metrics A') = QUERY_COUNT (app_metrics A) \<and>
         QUERY_ERRORS (app_metrics A') = QUERY_ERRORS (app_metrics A) \<and>
         QUERY_LATENCY (app_metrics A') = QUERY_LATENCY (app_metrics A)"
  using assms
  by (auto simp: query_question_def split: option.splits sum.splits prod.splits
      dest: query_keeps_query_metrics)

text \<open>
  Claim C10. Every call of the wrapped query endpoint returns what the endpoint returns or
  raises what it raises, observes the latency histogram exactly once, increments the query
  counter exactly when the call returns and the error counter exactly when it raises: one of
  the two counters goes up by one, the other stays.
\<close>

theorem query_endpoint_metrics:
  assumes "query_endpoint E request A = (res, A')"
  shows "res = fst (query_question E request A) \<and>
         length (QUERY_LATENCY (app_metrics A')) = length (QUERY_LATENCY (app_metrics A)) + 1 \<and>
         QUERY_COUNT (app_metrics A') = QUERY_COUNT (app_metrics A) + (if isl res then 0 else 1) \<and>
         QUERY_ERRORS (app_metrics A') = QUERY_ERRORS (app_metrics A) + (if isl res then 1 else 0)"
proof -
  obtain r0 A0 where q: "query_question E request A = (r0, A0)"
    by (metis surj_pair)
  note k = query_question_keeps_query_metrics [OF q]
  show ?thesis
  proof (cases r0)
    case (Inl e)
    with assms q k show ?thesis
      by (auto simp: query_endpoint_def track_metrics_def Let_def)
  next
    case (Inr result)
    with assms q k show ?thesis
      by (auto simp: query_endpoint_def track_metrics_def Let_def)
  qed
qed

theorem query_endpoint_metrics_witness:
  "(case query_endpoint env_chunks cats_query ready_app of
      (res, A') \<Rightarrow>
        \<not> isl res \<and> QUERY_COUNT (app_metrics A') = 1 \<and> QUERY_ERRORS (app_metrics A') = 0 \<and>
        length (QUERY_LATENCY (app_metrics A')) = 1) \<and>
   (case query_endpoint env0 cats_query app0 of
      (res, A') \<Rightarrow>
        isl res \<and> QUERY_COUNT (app_metrics A') = 0 \<and> QUERY_ERRORS (app_metrics A') = 1 \<and>
        length (QUERY_LATENCY (app_metrics A')) = 1)"
proof -
  obtain r1 A1 where e1: "query_endpoint env_chunks cats_query ready_app = (r1, A1)"
    by (metis surj_pair)
  obtain r2 A2 where e2: "query_endpoint env0 cats_query app0 = (r2, A2)"
    by (metis surj_pair)
  have q1: "\<not> isl (fst (query_question env_chunks cats_query ready_app))"
    by (simp add: query_question_def ready_app_def cats_query_def query_def ready_pipeline_eq
        env_chunks_def env0_def)
  have q2: "isl (fst (query_question env0 cats_query app0))"
    by (simp add: query_question_def app0_def cats_query_def query_def env_defs)
  have m: "app_metrics ready_app = metrics0" "app_metrics app0 = metrics0"
    by (simp_all add: ready_app_def app0_def)
  show ?thesis
    using query_endpoint_metrics [OF e1] query_endpoint_metrics [OF e2] e1 e2 q1 q2
    by (simp add: m metrics0_def)
qed

end
